theory Spec2Isabelle
  imports Main
begin

section \<open>Data model\<close>

text \<open>
  The service of \<^verbatim>\<open>main.go\<close>: a table of users behind \<^verbatim>\<open>database/sql\<close>, a Redis
  cache, a caching proxy between them, a service that validates the age, and the HTTP
  handlers. Every method is embedded as a function from the world before the call to a
  result and the world after it. Calls are taken one at a time; requests served
  concurrently are not interleaved.

  \<^verbatim>\<open>type User struct { Id int; Name, Password, Email string; Age int }\<close>.
  Go's \<^verbatim>\<open>int\<close> has 64 bits; the program does no arithmetic on these fields, so they are
  integers here and the range appears only where the JSON decoder checks it.
\<close>

record User =
  Id :: int
  Name :: string
  Password :: string
  Email :: string
  Age :: int

text \<open>
  A Go slice is either \<^verbatim>\<open>nil\<close> or a sequence (possibly empty); \<^verbatim>\<open>encoding/json\<close>
  tells the two apart. \<^verbatim>\<open>append\<close> on a nil slice gives a slice that is not nil.
\<close>

datatype 'a slice = SNil | Slice "'a list"

fun elems :: "'a slice \<Rightarrow> 'a list" where
  "elems SNil = []"
| "elems (Slice xs) = xs"

definition append_slice :: "'a slice \<Rightarrow> 'a \<Rightarrow> 'a slice" where
  "append_slice s x = Slice (elems s @ [x])"

subsection \<open>Errors\<close>

text \<open>
  The program builds its errors with \<^verbatim>\<open>fmt.Errorf\<close>, wrapping the library's error. An
  error value is the message of the source with the kind of the wrapped cause.
\<close>

datatype cause =
    ConstraintViolation   \<comment> \<open>the UNIQUE constraint on \<^verbatim>\<open>email\<close>\<close>
  | IOFailure             \<comment> \<open>the database or Redis could not be reached, or the context was cancelled\<close>
  | UnsupportedType       \<comment> \<open>\<^verbatim>\<open>json.UnsupportedTypeError\<close>\<close>
  | SyntaxError           \<comment> \<open>the bytes are not JSON\<close>
  | TypeMismatch          \<comment> \<open>\<^verbatim>\<open>json.UnmarshalTypeError\<close>\<close>

datatype error =
    ValidationFailure                    \<comment> \<open>the message of \<^verbatim>\<open>userService.Create\<close> for an age below 18\<close>
  | FailedToInsertUser cause             \<comment> \<open>\<^verbatim>\<open>failed to insert user: %w\<close>\<close>
  | FailedToRetrieveLastInsertId cause   \<comment> \<open>\<^verbatim>\<open>failed to retrieve last insert id: %w\<close>\<close>
  | FailedToGetAllUsers cause            \<comment> \<open>\<^verbatim>\<open>failed to get all users: %w\<close>\<close>
  | FailedToScanUser cause               \<comment> \<open>\<^verbatim>\<open>failed to scan user: %w\<close>\<close>
  | FailedToEncodeValue cause            \<comment> \<open>\<^verbatim>\<open>failed to encode value: %w\<close>\<close>
  | KeyNotFound string                   \<comment> \<open>\<^verbatim>\<open>key %s not found\<close>\<close>
  | FailedToGetKey string cause          \<comment> \<open>\<^verbatim>\<open>failed to get key %s: %w\<close>\<close>
  | FailedToDecodeKey string cause       \<comment> \<open>\<^verbatim>\<open>failed to decode key %s: %w\<close>\<close>
  | ClientError cause                    \<comment> \<open>the Redis client's error, returned as it is by \<^verbatim>\<open>cache.Delete\<close>\<close>

subsection \<open>JSON documents\<close>

text \<open>
  \<^verbatim>\<open>encoding/json\<close> is a library, not code of this repository. A byte sequence is
  modelled by what the library's stream decoder reads from it: the first JSON value, by
  its abstract syntax, or nothing when the bytes do not start with a JSON value. A number
  literal with a fraction or an exponent is \<open>JNonInt\<close>: the program decodes numbers into
  \<^verbatim>\<open>int\<close> fields only, where such a literal is a type error whatever its value.
\<close>

datatype json =
    JNull
  | JBool bool
  | JInt int
  | JNonInt
  | JStr string
  | JArr "json list"
  | JObj "(string \<times> json) list"

datatype bytes = Text json | Malformed

text \<open>
  The encoder writes a Go string as a JSON string after replacing every byte that is not
  part of a valid UTF-8 encoding by U+FFFD (the bytes EF BF BD). \<open>rune_width\<close> is the
  width \<^verbatim>\<open>utf8.DecodeRuneInString\<close> reports for a valid encoding at the head of the string,
  and 0 where it reports \<^verbatim>\<open>RuneError\<close> with width 1 (or the string is empty).
\<close>

definition byte :: "char \<Rightarrow> nat" where
  "byte c = of_char c"

definition cont :: "char \<Rightarrow> bool" where
  "cont c = (128 \<le> byte c \<and> byte c \<le> 191)"

definition second_ok :: "nat \<Rightarrow> char \<Rightarrow> bool" where
  "second_ok b c =
     (if b = 224 then 160 \<le> byte c \<and> byte c \<le> 191
      else if b = 237 then 128 \<le> byte c \<and> byte c \<le> 159
      else if b = 240 then 144 \<le> byte c \<and> byte c \<le> 191
      else if b = 244 then 128 \<le> byte c \<and> byte c \<le> 143
      else cont c)"

fun rune_width :: "string \<Rightarrow> nat" where
  "rune_width [] = 0"
| "rune_width (c # cs) =
     (if byte c < 128 then 1
      else if 194 \<le> byte c \<and> byte c \<le> 223 then
        (case cs of c1 # _ \<Rightarrow> if cont c1 then 2 else 0 | _ \<Rightarrow> 0)
      else if 224 \<le> byte c \<and> byte c \<le> 239 then
        (case cs of c1 # c2 # _ \<Rightarrow> if second_ok (byte c) c1 \<and> cont c2 then 3 else 0 | _ \<Rightarrow> 0)
      else if 240 \<le> byte c \<and> byte c \<le> 244 then
        (case cs of c1 # c2 # c3 # _ \<Rightarrow>
           if second_ok (byte c) c1 \<and> cont c2 \<and> cont c3 then 4 else 0 | _ \<Rightarrow> 0)
      else 0)"

definition replacement :: string where
  "replacement = [CHR 0xEF, CHR 0xBF, CHR 0xBD]"

function to_valid_utf8 :: "string \<Rightarrow> string" where
  "to_valid_utf8 [] = []"
| "to_valid_utf8 (c # cs) =
     (if rune_width (c # cs) = 0 then replacement @ to_valid_utf8 cs
      else take (rune_width (c # cs)) (c # cs) @ to_valid_utf8 (drop (rune_width (c # cs)) (c # cs)))"
  by pat_completeness auto
termination
  by (relation "measure length") auto

text \<open>
  The struct tags of \<^verbatim>\<open>User\<close> name the keys; the encoder writes the fields in the order
  of the struct. A nil slice is written as \<^verbatim>\<open>null\<close>, any other slice as an array.
\<close>

definition json_of_User :: "User \<Rightarrow> json" where
  "json_of_User u =
     JObj [(''id'', JInt (Id u)),
           (''name'', JStr (to_valid_utf8 (Name u))),
           (''password'', JStr (to_valid_utf8 (Password u))),
           (''email'', JStr (to_valid_utf8 (Email u))),
           (''age'', JInt (Age u))]"

fun json_of_users :: "User slice \<Rightarrow> json" where
  "json_of_users SNil = JNull"
| "json_of_users (Slice us) = JArr (map json_of_User us)"

text \<open>
  The values \<^verbatim>\<open>cache.Set\<close> can receive in its \<^verbatim>\<open>interface{}\<close> parameter: raw bytes, which
  its type assertion \<^verbatim>\<open>value.([]byte)\<close> picks out, or any other Go value. Of the other
  values the model has the one the program passes, a slice of users, and a channel, one of
  the types \<^verbatim>\<open>json.Encoder.Encode\<close> refuses with an \<^verbatim>\<open>UnsupportedTypeError\<close>.
\<close>

datatype gvalue = VUsers "User slice" | VChan

datatype any = Bytes bytes | Other gvalue

fun json_Encode :: "gvalue \<Rightarrow> cause + bytes" where
  "json_Encode (VUsers s) = Inr (Text (json_of_users s))"
| "json_Encode VChan = Inl UnsupportedType"

text \<open>
  Decoding into a \<^verbatim>\<open>[]User\<close> that is nil, as \<^verbatim>\<open>proxyUserRepo.GetAll\<close> declares it.
  A key names a field when it equals the field's tag up to case (the tags are lower case;
  of the non-ASCII letters only U+017F, the long s, folds to a letter of a tag). A key that
  names no field is skipped with its value; \<^verbatim>\<open>null\<close> leaves a field as it is; a later
  duplicate of a key overwrites an earlier one; a number outside 64 bits, or a value of
  another JSON type, is an \<^verbatim>\<open>UnmarshalTypeError\<close>.
\<close>

definition lower :: "char \<Rightarrow> char" where
  "lower c =
     (case map_of (zip ''ABCDEFGHIJKLMNOPQRSTUVWXYZ'' ''abcdefghijklmnopqrstuvwxyz'') c of
        None \<Rightarrow> c
      | Some d \<Rightarrow> d)"

fun fold_key :: "string \<Rightarrow> string" where
  "fold_key [] = []"
| "fold_key [c] = [lower c]"
| "fold_key (c # d # cs) =
     (if byte c = 197 \<and> byte d = 191 then CHR ''s'' # fold_key cs
      else lower c # fold_key (d # cs))"

definition zero_User :: User where
  "zero_User = \<lparr>Id = 0, Name = [], Password = [], Email = [], Age = 0\<rparr>"

definition int64 :: "int \<Rightarrow> bool" where
  "int64 n = (- (2 ^ 63) \<le> n \<and> n < 2 ^ 63)"

definition int_field :: "json \<Rightarrow> int \<Rightarrow> int option" where
  "int_field v old =
     (case v of
        JNull \<Rightarrow> Some old
      | JInt n \<Rightarrow> if int64 n then Some n else None
      | _ \<Rightarrow> None)"

definition string_field :: "json \<Rightarrow> string \<Rightarrow> string option" where
  "string_field v old =
     (case v of JNull \<Rightarrow> Some old | JStr s \<Rightarrow> Some s | _ \<Rightarrow> None)"

definition set_field :: "string \<Rightarrow> json \<Rightarrow> User \<Rightarrow> User option" where
  "set_field k v u =
     (if fold_key k = ''id'' then map_option (\<lambda>n. u\<lparr>Id := n\<rparr>) (int_field v (Id u))
      else if fold_key k = ''name'' then map_option (\<lambda>s. u\<lparr>Name := s\<rparr>) (string_field v (Name u))
      else if fold_key k = ''password'' then
        map_option (\<lambda>s. u\<lparr>Password := s\<rparr>) (string_field v (Password u))
      else if fold_key k = ''email'' then map_option (\<lambda>s. u\<lparr>Email := s\<rparr>) (string_field v (Email u))
      else if fold_key k = ''age'' then map_option (\<lambda>n. u\<lparr>Age := n\<rparr>) (int_field v (Age u))
      else Some u)"

fun decode_fields :: "(string \<times> json) list \<Rightarrow> User \<Rightarrow> User option" where
  "decode_fields [] u = Some u"
| "decode_fields ((k, v) # kvs) u =
     (case set_field k v u of None \<Rightarrow> None | Some u' \<Rightarrow> decode_fields kvs u')"

definition decode_User :: "json \<Rightarrow> User option" where
  "decode_User j =
     (case j of JNull \<Rightarrow> Some zero_User | JObj kvs \<Rightarrow> decode_fields kvs zero_User | _ \<Rightarrow> None)"

fun decode_elems :: "json list \<Rightarrow> User list option" where
  "decode_elems [] = Some []"
| "decode_elems (j # js) =
     (case decode_User j of
        None \<Rightarrow> None
      | Some u \<Rightarrow> (case decode_elems js of None \<Rightarrow> None | Some us \<Rightarrow> Some (u # us)))"

definition json_Decode_users :: "bytes \<Rightarrow> cause + User slice" where
  "json_Decode_users b =
     (case b of
        Malformed \<Rightarrow> Inl SyntaxError
      | Text JNull \<Rightarrow> Inr SNil
      | Text (JArr js) \<Rightarrow>
          (case decode_elems js of None \<Rightarrow> Inl TypeMismatch | Some us \<Rightarrow> Inr (Slice us))
      | Text _ \<Rightarrow> Inl TypeMismatch)"

section \<open>The world outside the process\<close>

text \<open>
  The SQLite table \<^verbatim>\<open>users\<close> that \<^verbatim>\<open>Migrate\<close> creates, with the columns and the
  constraints of its \<^verbatim>\<open>CREATE TABLE\<close> statement: its rows in the order of their
  insertion, and the counter of \<^verbatim>\<open>AUTOINCREMENT\<close>. The Redis server: for each key the
  bytes and the time at which the entry expires. The trace records, in order, every call
  the program makes to the database and to Redis, and every line it logs.
\<close>

record database =
  rows :: "User list"
  seq :: int

datatype log_msg =
    LogCacheWriteError          \<comment> \<open>logged by \<^verbatim>\<open>cache.Set\<close> when the client fails\<close>
  | LogCacheRead string         \<comment> \<open>logged by \<^verbatim>\<open>cache.Get\<close> once the client returned bytes\<close>
  | LogCacheDeleteError         \<comment> \<open>logged by \<^verbatim>\<open>cache.Delete\<close> when the client fails\<close>
  | LogCacheResetError error    \<comment> \<open>logged by \<^verbatim>\<open>proxyUserRepo.Create\<close>\<close>
  | LogError error              \<comment> \<open>\<^verbatim>\<open>log.Print(err)\<close> of \<^verbatim>\<open>proxyUserRepo.GetAll\<close>\<close>
  | LogGetUsersError error      \<comment> \<open>logged by \<^verbatim>\<open>userController.GetAll\<close>\<close>
  | LogEncodeResponseError cause
  | LogAllUsersFetched

datatype event =
    DbExec | DbQuery
  | RedisGet string | RedisSet string | RedisDel string
  | Log log_msg

record world =
  db :: database
  redis :: "string \<rightharpoonup> bytes \<times> nat"
  trace :: "event list"

text \<open>
  What a call meets outside the process: the time (in milliseconds), and whether each
  call to the database and to Redis goes through. A flag that is off stands for any
  failure of the transport (the server is down, the context is cancelled). The SQLite
  driver the program imports always answers \<^verbatim>\<open>LastInsertId\<close>; its flag keeps the branch
  of the source.
\<close>

record env =
  now :: nat
  db_exec_ok :: bool
  db_last_id_ok :: bool
  db_query_ok :: bool
  redis_get_ok :: bool
  redis_set_ok :: bool
  redis_del_ok :: bool

definition emit :: "event \<Rightarrow> world \<Rightarrow> world" where
  "emit ev w = w\<lparr>trace := trace w @ [ev]\<rparr>"

definition init_world :: world where
  \<comment> \<open>after \<^verbatim>\<open>NewUserDB\<close> on a fresh database file and \<^verbatim>\<open>miniredis.Run\<close>\<close>
  "init_world = \<lparr>db = \<lparr>rows = [], seq = 0\<rparr>, redis = Map.empty, trace = []\<rparr>"

section \<open>The persistence store: \<^verbatim>\<open>userDb\<close>\<close>

text \<open>
  \<^verbatim>\<open>INSERT INTO users (name, password, email, age)\<close>: the statement gives no id, so
  SQLite takes the next one, above the counter and above every id of the table; the
  column \<^verbatim>\<open>email\<close> is \<^verbatim>\<open>UNIQUE\<close>, and a Go string is never SQL's NULL.
\<close>

definition next_id :: "database \<Rightarrow> int" where
  "next_id d = fold max (map Id (rows d)) (seq d) + 1"

definition userDb_Create :: "env \<Rightarrow> world \<Rightarrow> User \<Rightarrow> (error + int) \<times> world" where
  "userDb_Create e w user =
     (let w1 = emit DbExec w in
      if \<not> db_exec_ok e then (Inl (FailedToInsertUser IOFailure), w1)
      else if Email user \<in> set (map Email (rows (db w))) then
        (Inl (FailedToInsertUser ConstraintViolation), w1)
      else
        let uid = next_id (db w);
            w2 = w1\<lparr>db := \<lparr>rows = rows (db w) @ [user\<lparr>Id := uid\<rparr>], seq = uid\<rparr>\<rparr>
        in if \<not> db_last_id_ok e then (Inl (FailedToRetrieveLastInsertId IOFailure), w2)
           else (Inr uid, w2))"

text \<open>
  \<^verbatim>\<open>SELECT * FROM users\<close> and the loop over the rows. The columns of a row of this table
  hold what \<^verbatim>\<open>Create\<close> bound to them, so \<^verbatim>\<open>rows.Scan\<close> converts every row; the
  branch of the source for its error is kept. The query is atomic here: it fails as a
  whole or yields every row. (The source does not call \<^verbatim>\<open>rows.Err\<close>, so a connection lost
  during the iteration would end the loop early without an error.)
\<close>

definition rows_Scan :: "User \<Rightarrow> cause + User" where
  "rows_Scan r = Inr r"

fun scan_rows :: "User slice \<Rightarrow> User list \<Rightarrow> error + User slice" where
  "scan_rows users [] = Inr users"
| "scan_rows users (r # rs) =
     (case rows_Scan r of
        Inl c \<Rightarrow> Inl (FailedToScanUser c)
      | Inr user \<Rightarrow> scan_rows (append_slice users user) rs)"

definition userDb_GetAll :: "env \<Rightarrow> world \<Rightarrow> (error + User slice) \<times> world" where
  "userDb_GetAll e w =
     (let w1 = emit DbQuery w in
      if \<not> db_query_ok e then (Inl (FailedToGetAllUsers IOFailure), w1)
      else
        (case scan_rows SNil (rows (db w)) of
           Inl err \<Rightarrow> (Inl err, w1)
         | Inr users \<Rightarrow> (Inr users, w1)))"

section \<open>The cache: \<^verbatim>\<open>cache\<close>\<close>

text \<open>
  \<^verbatim>\<open>NewCache\<close>, the only constructor, sets \<^verbatim>\<open>dataExpiration\<close> to five minutes. Redis
  answers a \<^verbatim>\<open>GET\<close> for a key whose entry has expired as for a key it does not hold
  (\<^verbatim>\<open>redis.Nil\<close>).
\<close>

definition minute :: nat where
  "minute = 60000"

definition dataExpiration :: nat where
  "dataExpiration = 5 * minute"

definition client_Get :: "nat \<Rightarrow> (string \<rightharpoonup> bytes \<times> nat) \<Rightarrow> string \<Rightarrow> bytes option" where
  "client_Get t m key =
     (case m key of
        None \<Rightarrow> None
      | Some (b, deadline) \<Rightarrow> if t < deadline then Some b else None)"

definition cache_Set :: "env \<Rightarrow> world \<Rightarrow> string \<Rightarrow> any \<Rightarrow> error option \<times> world" where
  "cache_Set e w key val =
     (case (case val of Bytes b \<Rightarrow> Inr b | Other v \<Rightarrow> json_Encode v) of
        Inl c \<Rightarrow> (Some (FailedToEncodeValue c), w)
      | Inr data \<Rightarrow>
          (let w1 = emit (RedisSet key) w in
           if redis_set_ok e
           then (None, w1\<lparr>redis := (redis w1)(key \<mapsto> (data, now e + dataExpiration))\<rparr>)
           else (None, emit (Log LogCacheWriteError) w1)))"

definition cache_Get :: "env \<Rightarrow> world \<Rightarrow> string \<Rightarrow> (error + User slice) \<times> world" where
  "cache_Get e w key =
     (let w1 = emit (RedisGet key) w in
      if \<not> redis_get_ok e then (Inl (FailedToGetKey key IOFailure), w1)
      else
        (case client_Get (now e) (redis w) key of
           None \<Rightarrow> (Inl (KeyNotFound key), w1)
         | Some b \<Rightarrow>
             (let w2 = emit (Log (LogCacheRead key)) w1 in
              case json_Decode_users b of
                Inl c \<Rightarrow> (Inl (FailedToDecodeKey key c), w2)
              | Inr users \<Rightarrow> (Inr users, w2))))"

definition cache_Delete :: "env \<Rightarrow> world \<Rightarrow> string \<Rightarrow> error option \<times> world" where
  "cache_Delete e w key =
     (let w1 = emit (RedisDel key) w in
      if \<not> redis_del_ok e then (Some (ClientError IOFailure), emit (Log LogCacheDeleteError) w1)
      else (None, w1\<lparr>redis := (redis w1)(key := None)\<rparr>))"

section \<open>The repository and its caching proxy\<close>

definition userRepo_Create :: "env \<Rightarrow> world \<Rightarrow> User \<Rightarrow> (error + int) \<times> world" where
  "userRepo_Create e w user = userDb_Create e w user"

definition userRepo_GetAll :: "env \<Rightarrow> world \<Rightarrow> (error + User slice) \<times> world" where
  "userRepo_GetAll e w = userDb_GetAll e w"

definition proxyUserRepo_Create :: "env \<Rightarrow> world \<Rightarrow> User \<Rightarrow> (error + int) \<times> world" where
  "proxyUserRepo_Create e w user =
     (case userRepo_Create e w user of
        (Inl err, w1) \<Rightarrow> (Inl err, w1)
      | (Inr uid, w1) \<Rightarrow>
          (case cache_Delete e w1 ''users'' of
             (Some err, w2) \<Rightarrow> (Inr uid, emit (Log (LogCacheResetError err)) w2)
           | (None, w2) \<Rightarrow> (Inr uid, w2)))"

definition proxyUserRepo_GetAll :: "env \<Rightarrow> world \<Rightarrow> (error + User slice) \<times> world" where
  "proxyUserRepo_GetAll e w =
     (case cache_Get e w ''users'' of
        (Inr users, w1) \<Rightarrow> (Inr users, w1)
      | (Inl _, w1) \<Rightarrow>
          (case userRepo_GetAll e w1 of
             (Inl err, w2) \<Rightarrow> (Inl err, w2)
           | (Inr users, w2) \<Rightarrow>
               (case cache_Set e w2 ''users'' (Other (VUsers users)) of
                  (Some err, w3) \<Rightarrow> (Inr users, emit (Log (LogError err)) w3)
                | (None, w3) \<Rightarrow> (Inr users, w3))))"

section \<open>The service\<close>

definition userService_Create :: "env \<Rightarrow> world \<Rightarrow> User \<Rightarrow> (error + int) \<times> world" where
  "userService_Create e w user =
     (if Age user < 18 then (Inl ValidationFailure, w)
      else proxyUserRepo_Create e w user)"

definition userService_GetAll :: "env \<Rightarrow> world \<Rightarrow> (error + User slice) \<times> world" where
  "userService_GetAll e w = proxyUserRepo_GetAll e w"

text \<open>
  The states the service can reach: from the initial world, by any sequence of its two
  methods, each under any conditions of the environment.
\<close>

datatype request = CreateUser User | ListUsers

fun serve :: "env \<times> request \<Rightarrow> world \<Rightarrow> world" where
  "serve (e, CreateUser u) w = snd (userService_Create e w u)"
| "serve (e, ListUsers) w = snd (userService_GetAll e w)"

definition run :: "(env \<times> request) list \<Rightarrow> world \<Rightarrow> world" where
  "run rs w = fold serve rs w"

inductive reachable :: "world \<Rightarrow> bool" where
  start: "reachable init_world"
| step: "reachable w \<Longrightarrow> reachable (serve r w)"

section \<open>The handler of \<^verbatim>\<open>GET /users\<close>\<close>

text \<open>
  \<^verbatim>\<open>http.ResponseWriter\<close>: the header map the handler edits, and what has gone to the
  client. The first \<^verbatim>\<open>WriteHeader\<close> fixes the status and sends the header map as it is
  then; a \<^verbatim>\<open>Write\<close> before any \<^verbatim>\<open>WriteHeader\<close> sends status 200 first. The headers the
  server adds by itself are not modelled.
\<close>

datatype chunk =
    Data bytes            \<comment> \<open>the bytes the JSON encoder wrote\<close>
  | Message error         \<comment> \<open>\<^verbatim>\<open>err.Error()\<close> of an error of the program\<close>
  | LibMessage cause      \<comment> \<open>\<^verbatim>\<open>err.Error()\<close> of an error of the encoder\<close>

record ResponseWriter =
  header :: "string \<rightharpoonup> string"
  status :: "nat option"
  sent_header :: "string \<rightharpoonup> string"
  body :: "chunk list"

definition new_ResponseWriter :: ResponseWriter where
  "new_ResponseWriter = \<lparr>header = Map.empty, status = None, sent_header = Map.empty, body = []\<rparr>"

definition Header_Set :: "string \<Rightarrow> string \<Rightarrow> ResponseWriter \<Rightarrow> ResponseWriter" where
  "Header_Set k v rw = rw\<lparr>header := (header rw)(k \<mapsto> v)\<rparr>"

definition WriteHeader :: "nat \<Rightarrow> ResponseWriter \<Rightarrow> ResponseWriter" where
  "WriteHeader code rw =
     (if status rw = None then rw\<lparr>status := Some code, sent_header := header rw\<rparr> else rw)"

definition StatusOK :: nat where
  "StatusOK = 200"

definition StatusInternalServerError :: nat where
  "StatusInternalServerError = 500"

definition Write :: "chunk \<Rightarrow> ResponseWriter \<Rightarrow> ResponseWriter" where
  "Write c rw = (let rw1 = WriteHeader StatusOK rw in rw1\<lparr>body := body rw1 @ [c]\<rparr>)"

definition userController_GetAll ::
  "env \<Rightarrow> world \<Rightarrow> ResponseWriter \<Rightarrow> ResponseWriter \<times> world" where
  "userController_GetAll e w rw =
     (case userService_GetAll e w of
        (Inl err, w1) \<Rightarrow>
          (Write (Message err) (WriteHeader StatusInternalServerError rw),
           emit (Log (LogGetUsersError err)) w1)
      | (Inr users, w1) \<Rightarrow>
          (let rw1 = Header_Set ''Content-Type'' ''application/json'' rw in
           case json_Encode (VUsers users) of
             Inl c \<Rightarrow>
               (Write (LibMessage c) (WriteHeader StatusInternalServerError rw1),
                emit (Log (LogEncodeResponseError c)) w1)
           | Inr b \<Rightarrow> (Write (Data b) rw1, emit (Log LogAllUsersFetched) w1)))"

section \<open>Predicates of the statements\<close>

text \<open>
  A value that \<^verbatim>\<open>cache.Set\<close> can turn into bytes: raw bytes, or a value the encoder
  accepts.
\<close>

definition encodable :: "any \<Rightarrow> bool" where
  "encodable val =
     (case val of
        Bytes b \<Rightarrow> True
      | Other v \<Rightarrow> (case json_Encode v of Inl c \<Rightarrow> False | Inr b \<Rightarrow> True))"

text \<open>
  A user whose encoding decodes to the same user: its numbers fit 64 bits and its strings
  are valid UTF-8, which the encoder leaves as they are.
\<close>

definition round_trips :: "User \<Rightarrow> bool" where
  "round_trips u =
     (int64 (Id u) \<and> int64 (Age u) \<and> to_valid_utf8 (Name u) = Name u
      \<and> to_valid_utf8 (Password u) = Password u \<and> to_valid_utf8 (Email u) = Email u)"

section \<open>Concrete inputs\<close>

text \<open>
  The users of the scenario of the specification and a third one, an environment in which
  every call goes through, and the environments of the failures examined below.
\<close>

definition calm :: "nat \<Rightarrow> env" where
  "calm t = \<lparr>now = t, db_exec_ok = True, db_last_id_ok = True, db_query_ok = True,
              redis_get_ok = True, redis_set_ok = True, redis_del_ok = True\<rparr>"

definition del_fails :: "nat \<Rightarrow> env" where
  \<comment> \<open>Redis refuses the \<^verbatim>\<open>DEL\<close>\<close>
  "del_fails t = (calm t)\<lparr>redis_del_ok := False\<rparr>"

definition set_fails :: "nat \<Rightarrow> env" where
  \<comment> \<open>Redis refuses the \<^verbatim>\<open>SET\<close>\<close>
  "set_fails t = (calm t)\<lparr>redis_set_ok := False\<rparr>"

definition db_down :: "nat \<Rightarrow> env" where
  \<comment> \<open>the database is unavailable\<close>
  "db_down t = (calm t)\<lparr>db_exec_ok := False, db_query_ok := False\<rparr>"

definition outage :: "nat \<Rightarrow> env" where
  \<comment> \<open>the database is unavailable and Redis cannot be read\<close>
  "outage t = (calm t)\<lparr>db_exec_ok := False, db_query_ok := False, redis_get_ok := False\<rparr>"

definition redis_down :: "nat \<Rightarrow> env" where
  \<comment> \<open>Redis refuses the \<^verbatim>\<open>GET\<close> and the \<^verbatim>\<open>SET\<close>\<close>
  "redis_down t = (calm t)\<lparr>redis_get_ok := False, redis_set_ok := False\<rparr>"

definition al :: User where
  "al = \<lparr>Id = 0, Name = ''Al'', Password = ''x'', Email = ''a@x.com'', Age = 21\<rparr>"

definition al_minor :: User where
  "al_minor = \<lparr>Id = 0, Name = ''Al'', Password = ''x'', Email = ''a@x.com'', Age = 17\<rparr>"

definition bo :: User where
  "bo = \<lparr>Id = 0, Name = ''Bo'', Password = ''y'', Email = ''a@x.com'', Age = 25\<rparr>"

definition cy :: User where
  "cy = \<lparr>Id = 0, Name = ''Cy'', Password = ''z'', Email = ''c@x.com'', Age = 30\<rparr>"

definition with_al :: world where
  \<comment> \<open>the initial world after Al has registered\<close>
  "with_al = snd (userService_Create (calm 0) init_world al)"

definition with_al_cached :: world where
  \<comment> \<open>and after the list has been read once, which fills the cache\<close>
  "with_al_cached = snd (userService_GetAll (calm 0) with_al)"

definition with_stale_cache :: world where
  \<comment> \<open>and after Cy has registered while Redis refused the \<^verbatim>\<open>DEL\<close>: the cache still holds Al alone\<close>
  "with_stale_cache = snd (proxyUserRepo_Create (del_fails 1) with_al_cached cy)"

section \<open>Unfolding the program\<close>

lemmas store_defs = userDb_Create_def userDb_GetAll_def userRepo_Create_def userRepo_GetAll_def
  next_id_def emit_def rows_Scan_def append_slice_def

lemmas cache_defs = cache_Set_def cache_Get_def cache_Delete_def client_Get_def
  dataExpiration_def minute_def

lemmas service_defs = proxyUserRepo_Create_def proxyUserRepo_GetAll_def
  userService_Create_def userService_GetAll_def

lemmas json_defs = json_Decode_users_def json_of_User_def decode_User_def set_field_def
  byte_def lower_def zero_User_def int_field_def int64_def string_field_def

lemmas handler_defs = userController_GetAll_def new_ResponseWriter_def Write_def
  WriteHeader_def Header_Set_def

lemmas input_defs = calm_def del_fails_def set_fails_def db_down_def outage_def redis_down_def
  al_def al_minor_def bo_def cy_def init_world_def

lemma with_al_eq:
  "with_al = \<lparr>db = \<lparr>rows = [al\<lparr>Id := 1\<rparr>], seq = 1\<rparr>, redis = Map.empty,
              trace = [DbExec, RedisDel ''users'']\<rparr>"
  by (simp add: with_al_def store_defs cache_defs service_defs input_defs)

lemma with_al_cached_eq:
  "with_al_cached =
     \<lparr>db = \<lparr>rows = [al\<lparr>Id := 1\<rparr>], seq = 1\<rparr>,
      redis = [''users'' \<mapsto> (Text (json_of_users (Slice [al\<lparr>Id := 1\<rparr>])), dataExpiration)],
      trace = [DbExec, RedisDel ''users'', RedisGet ''users'', DbQuery, RedisSet ''users'']\<rparr>"
  by (simp add: with_al_cached_def with_al_eq store_defs cache_defs service_defs input_defs)

text \<open>The loop of \<^verbatim>\<open>userDb.GetAll\<close>: over a table without rows the slice stays nil.\<close>

lemma scan_rows_eq:
  "scan_rows s rs = Inr (if rs = [] then s else Slice (elems s @ rs))"
  by (induction rs arbitrary: s) (simp_all add: rows_Scan_def append_slice_def)

text \<open>
  A call of the service leaves the table as it is or appends one row, the user of a
  \<^verbatim>\<open>Create\<close> whose age is at least 18, under a new id.
\<close>

lemma serve_rows:
  "rows (db (serve r w)) = rows (db w) \<or>
   (\<exists>e u i. r = (e, CreateUser u) \<and> 18 \<le> Age u
      \<and> rows (db (serve r w)) = rows (db w) @ [u\<lparr>Id := i\<rparr>])"
proof (cases r)
  case (Pair e q)
  show ?thesis
  proof (cases q)
    case (CreateUser u)
    with Pair show ?thesis
      by (auto simp add: service_defs store_defs cache_Delete_def Let_def split: if_splits)
  next
    case ListUsers
    with Pair show ?thesis
      by (auto simp add: service_defs store_defs cache_defs Let_def
          split: if_splits option.splits sum.splits)
  qed
qed

lemma run_keeps_emails:
  "x \<in> set (map Email (rows (db w))) \<Longrightarrow> x \<in> set (map Email (rows (db (run rs w))))"
proof (induction rs arbitrary: w)
  case Nil
  then show ?case by (simp add: run_def)
next
  case (Cons r rs)
  have "x \<in> set (map Email (rows (db (serve r w))))"
    using serve_rows [of r w] Cons.prems by auto
  from Cons.IH [OF this] show ?case by (simp add: run_def)
qed

section \<open>Encoding and decoding the list of users\<close>

lemma ascii_is_valid_utf8: "\<forall>c \<in> set s. byte c < 128 \<Longrightarrow> to_valid_utf8 s = s"
  by (induction s) simp_all

lemma decode_encode_User: "round_trips u \<Longrightarrow> decode_User (json_of_User u) = Some u"
  by (simp add: round_trips_def json_defs)

lemma decode_encode_elems:
  "list_all round_trips us \<Longrightarrow> decode_elems (map json_of_User us) = Some us"
  by (induction us) (simp_all add: decode_encode_User)

lemma decode_encode_users:
  "list_all round_trips (elems s) \<Longrightarrow> json_Decode_users (Text (json_of_users s)) = Inr s"
  by (cases s) (simp_all add: json_Decode_users_def decode_encode_elems)

text \<open>
  A name that is not valid UTF-8 does not come back: the encoder has replaced the byte.
\<close>

lemma invalid_utf8_does_not_round_trip:
  "json_Decode_users (Text (json_of_users (Slice [al\<lparr>Name := [CHR 0xFF]\<rparr>])))
     = Inr (Slice [al\<lparr>Name := [CHR 0xEF, CHR 0xBF, CHR 0xBD]\<rparr>])"
  by (simp add: json_defs al_def replacement_def)

lemma al_round_trips:
  "json_Decode_users (Text (json_of_users (Slice [al\<lparr>Id := 1\<rparr>]))) = Inr (Slice [al\<lparr>Id := 1\<rparr>])"
  by (simp add: json_defs al_def)

section \<open>The age rule\<close>

text \<open>
  Claim C2. For every user whose age is below 18, \<^verbatim>\<open>userService.Create\<close> fails with the
  validation error, whatever the other fields, the store, the cache and the environment
  are; the world after the call is the world before it: no row is written, the cache is
  as it was, and the trace shows no call to the database or to Redis.
\<close>

theorem C2_minor_rejected_store_untouched:
  "Age u < 18 \<Longrightarrow> userService_Create e w u = (Inl ValidationFailure, w)"
  by (simp add: userService_Create_def)

theorem C2_minor_rejected_witness:
  "Age al_minor < 18 \<and>
   userService_Create (calm 0) with_al al_minor = (Inl ValidationFailure, with_al)"
  using C2_minor_rejected_store_untouched [of al_minor "calm 0" with_al]
  by (simp add: al_minor_def)

text \<open>
  Claim C9. A call of \<^verbatim>\<open>userService.Create\<close> that changes the rows of the table was
  made for a user whose age is at least 18; hence in every state the service reaches from
  the initial world, by any sequence of its calls under any environment, every stored user
  is at least 18.
\<close>

theorem C9_stored_users_are_adults:
  "(rows (db (snd (userService_Create e w0 u))) \<noteq> rows (db w0) \<longrightarrow> 18 \<le> Age u)
   \<and> (reachable w \<longrightarrow> (\<forall>r \<in> set (rows (db w)). 18 \<le> Age r))"
proof
  show "rows (db (snd (userService_Create e w0 u))) \<noteq> rows (db w0) \<longrightarrow> 18 \<le> Age u"
    by (simp add: userService_Create_def)
next
  have "reachable w \<Longrightarrow> \<forall>r \<in> set (rows (db w)). 18 \<le> Age r"
  proof (induction rule: reachable.induct)
    case start
    then show ?case by (simp add: init_world_def)
  next
    case (step w r)
    then show ?case using serve_rows [of r w] by auto
  qed
  then show "reachable w \<longrightarrow> (\<forall>r \<in> set (rows (db w)). 18 \<le> Age r)" by blast
qed

theorem C9_stored_users_are_adults_witness:
  "rows (db (snd (userService_Create (calm 0) init_world al))) \<noteq> rows (db init_world)
   \<and> 18 \<le> Age al \<and> reachable with_al \<and> list_all (\<lambda>r. 18 \<le> Age r) (rows (db with_al))"
proof -
  have r: "reachable with_al"
    using reachable.step [OF reachable.start, of "(calm 0, CreateUser al)"]
    by (simp add: with_al_def)
  have c: "rows (db (snd (userService_Create (calm 0) init_world al))) \<noteq> rows (db init_world)"
    using with_al_eq by (simp add: with_al_def init_world_def)
  show ?thesis
    using C9_stored_users_are_adults [of "calm 0" init_world al with_al] r c
    by (simp add: list_all_iff)
qed

section \<open>The unique email\<close>

text \<open>
  Claim C5, as amended. Once \<^verbatim>\<open>Create\<close> has succeeded for a user, every later \<^verbatim>\<open>Create\<close>
  for a user with the same email fails, whatever calls of the service came between. The
  error depends on the age: below 18 it is the validation error, since the service checks
  the age before it reaches the store; from 18 on it is the error of the store's insert,
  the constraint violation whenever the statement reaches the database, and the failure of
  the database otherwise.
\<close>

theorem C5_second_create_same_email_fails:
  assumes "userService_Create e1 w u1 = (Inr i, w1)"
    and "Email u2 = Email u1"
  shows "fst (userService_Create e2 (run rs w1) u2) =
           Inl (if Age u2 < 18 then ValidationFailure
                else if db_exec_ok e2 then FailedToInsertUser ConstraintViolation
                else FailedToInsertUser IOFailure)"
proof -
  have "Email u1 \<in> set (map Email (rows (db w1)))"
    using assms(1)
    by (auto simp add: service_defs store_defs cache_Delete_def Let_def split: if_splits)
  then have "Email u2 \<in> set (map Email (rows (db (run rs w1))))"
    using assms(2) run_keeps_emails by simp
  then show ?thesis
    by (simp add: service_defs store_defs Let_def)
qed

theorem C5_second_create_same_email_witness:
  "userService_Create (calm 0) init_world al = (Inr 1, with_al)
   \<and> Email bo = Email al
   \<and> fst (userService_Create (calm 2) (run [(calm 1, ListUsers)] with_al) bo) =
       Inl (FailedToInsertUser ConstraintViolation)"
proof -
  have h: "userService_Create (calm 0) init_world al = (Inr 1, with_al)"
    by (simp add: with_al_eq store_defs cache_defs service_defs input_defs)
  have m: "Email bo = Email al"
    by (simp add: al_def bo_def)
  show ?thesis
    using h m C5_second_create_same_email_fails [OF h m, of "calm 2" "[(calm 1, ListUsers)]"]
    by (simp add: calm_def bo_def)
qed

text \<open>
  The claim as it was stated, a constraint violation regardless of the age, fails for a
  minor: Al has registered at 21, and a registration with the same email at 17 ends in the
  validation error. It also fails, for an adult, when the insert does not reach the
  database: Bo's registration with Al's email then ends in the failure of the database.
\<close>

theorem C5_minor_same_email_counterexample:
  "Email al_minor = Email al \<and> Email bo = Email al
   \<and> userService_Create (calm 0) init_world al = (Inr 1, with_al)
   \<and> fst (userService_Create (calm 1) with_al al_minor) = Inl ValidationFailure
   \<and> ValidationFailure \<noteq> FailedToInsertUser ConstraintViolation
   \<and> fst (userService_Create (db_down 1) with_al bo) = Inl (FailedToInsertUser IOFailure)
   \<and> FailedToInsertUser IOFailure \<noteq> FailedToInsertUser ConstraintViolation"
  by (simp add: with_al_eq service_defs store_defs cache_defs input_defs)

section \<open>The caching proxy\<close>

text \<open>
  Claim C6. When the store's \<^verbatim>\<open>Create\<close> fails, \<^verbatim>\<open>proxyUserRepo.Create\<close> returns the
  store's error and the store's world: the entries of the cache are those before the call
  and the only call the trace gains is the insert, so no key was deleted or written.
\<close>

theorem C6_failed_create_leaves_cache:
  "fst (userRepo_Create e w u) = Inl err \<Longrightarrow>
     proxyUserRepo_Create e w u = userRepo_Create e w u
     \<and> fst (proxyUserRepo_Create e w u) = Inl err
     \<and> redis (snd (proxyUserRepo_Create e w u)) = redis w
     \<and> trace (snd (proxyUserRepo_Create e w u)) = trace w @ [DbExec]"
  by (auto simp add: proxyUserRepo_Create_def store_defs Let_def
      split: if_splits prod.splits sum.splits)

theorem C6_failed_create_leaves_cache_witness:
  "fst (userRepo_Create (calm 1) with_al_cached bo) = Inl (FailedToInsertUser ConstraintViolation)
   \<and> fst (proxyUserRepo_Create (calm 1) with_al_cached bo) = Inl (FailedToInsertUser ConstraintViolation)
   \<and> redis (snd (proxyUserRepo_Create (calm 1) with_al_cached bo)) = redis with_al_cached
   \<and> trace (snd (proxyUserRepo_Create (calm 1) with_al_cached bo)) = trace with_al_cached @ [DbExec]"
proof -
  have h: "fst (userRepo_Create (calm 1) with_al_cached bo) =
             Inl (FailedToInsertUser ConstraintViolation)"
    by (simp add: with_al_cached_eq store_defs input_defs)
  show ?thesis
    using h C6_failed_create_leaves_cache [OF h] by blast
qed

text \<open>
  Claim C4. When \<^verbatim>\<open>cache.Get\<close> of the key \<^verbatim>\<open>users\<close> succeeds, \<^verbatim>\<open>proxyUserRepo.GetAll\<close>
  returns its result, the decoding of the bytes the cache holds, and stops: the store and
  the cache are as before, and the trace gains the read of the cache and its log line and
  no call to the database.
\<close>

theorem C4_cache_hit_returns_at_once:
  "cache_Get e w ''users'' = (Inr users, w1) \<Longrightarrow>
     proxyUserRepo_GetAll e w = (Inr users, w1)
     \<and> (\<exists>b. client_Get (now e) (redis w) ''users'' = Some b \<and> json_Decode_users b = Inr users)
     \<and> db w1 = db w \<and> redis w1 = redis w
     \<and> trace w1 = trace w @ [RedisGet ''users'', Log (LogCacheRead ''users'')]"
  by (auto simp add: proxyUserRepo_GetAll_def cache_Get_def emit_def Let_def
      split: if_splits option.splits sum.splits)

theorem C4_cache_hit_witness:
  "cache_Get (db_down 1) with_al_cached ''users'' =
     (Inr (Slice [al\<lparr>Id := 1\<rparr>]),
      with_al_cached\<lparr>trace := trace with_al_cached @ [RedisGet ''users'', Log (LogCacheRead ''users'')]\<rparr>)
   \<and> proxyUserRepo_GetAll (db_down 1) with_al_cached =
     (Inr (Slice [al\<lparr>Id := 1\<rparr>]),
      with_al_cached\<lparr>trace := trace with_al_cached @ [RedisGet ''users'', Log (LogCacheRead ''users'')]\<rparr>)"
proof -
  have h: "cache_Get (db_down 1) with_al_cached ''users'' =
     (Inr (Slice [al\<lparr>Id := 1\<rparr>]),
      with_al_cached\<lparr>trace := trace with_al_cached @ [RedisGet ''users'', Log (LogCacheRead ''users'')]\<rparr>)"
    by (simp add: with_al_cached_eq cache_defs emit_def json_defs al_def db_down_def calm_def)
  show ?thesis
    using h C4_cache_hit_returns_at_once [OF h] by blast
qed

text \<open>
  Claim C10. \<^verbatim>\<open>proxyUserRepo.GetAll\<close> never changes the store: the table and its counter
  are the same after the call, whatever its result. Its only effect on the cache is,
  possibly, one write of the key \<^verbatim>\<open>users\<close>; it makes no insert and deletes no key.
\<close>

theorem C10_list_leaves_store:
  "proxyUserRepo_GetAll e w = (r, w1) \<Longrightarrow>
     db w1 = db w
     \<and> (redis w1 = redis w
         \<or> (\<exists>users. redis w1 =
               (redis w)(''users'' \<mapsto> (Text (json_of_users users), now e + dataExpiration))))
     \<and> (\<exists>evs. trace w1 = trace w @ evs \<and> DbExec \<notin> set evs \<and> RedisDel ''users'' \<notin> set evs)"
  by (auto simp add: proxyUserRepo_GetAll_def cache_Get_def cache_Set_def userRepo_GetAll_def
      userDb_GetAll_def emit_def Let_def split: if_splits option.splits sum.splits)

theorem C10_list_leaves_store_witness:
  "proxyUserRepo_GetAll (calm 0) with_al = (Inr (Slice [al\<lparr>Id := 1\<rparr>]), with_al_cached)
   \<and> db with_al_cached = db with_al
   \<and> redis with_al_cached =
       (redis with_al)(''users'' \<mapsto> (Text (json_of_users (Slice [al\<lparr>Id := 1\<rparr>])), dataExpiration))"
proof -
  have h: "proxyUserRepo_GetAll (calm 0) with_al = (Inr (Slice [al\<lparr>Id := 1\<rparr>]), with_al_cached)"
    by (simp add: with_al_cached_eq with_al_eq store_defs cache_defs service_defs input_defs)
  have "redis with_al_cached =
       (redis with_al)(''users'' \<mapsto> (Text (json_of_users (Slice [al\<lparr>Id := 1\<rparr>])), dataExpiration))"
    by (simp add: with_al_cached_eq with_al_eq)
  then show ?thesis
    using h C10_list_leaves_store [OF h] by blast
qed




text \<open>
  Claim C3, as amended. Let a first \<^verbatim>\<open>GetAll\<close> succeed with a list, either served from
  the cache or, on a miss, with its write of the cache going through and the list it wrote
  decoding back to itself. Let no call come between, and at the second \<^verbatim>\<open>GetAll\<close> let the
  cache be readable and its entry for \<^verbatim>\<open>users\<close> not have expired. Then the second call
  returns the same list, in the same order, and the trace gains the read of the cache and
  no call to the database: the result does not depend on whether the store is available.
\<close>

theorem C3_second_list_from_cache:
  assumes first: "proxyUserRepo_GetAll e1 w = (Inr users, w1)"
    and filled: "fst (cache_Get e1 w ''users'') = Inr users
                 \<or> redis_set_ok e1 \<and> json_Decode_users (Text (json_of_users users)) = Inr users"
    and readable: "redis_get_ok e2"
    and alive: "\<exists>b deadline. redis w1 ''users'' = Some (b, deadline) \<and> now e2 < deadline"
  shows "proxyUserRepo_GetAll e2 w1 =
           (Inr users, w1\<lparr>trace := trace w1 @ [RedisGet ''users'', Log (LogCacheRead ''users'')]\<rparr>)"
proof (cases "fst (cache_Get e1 w ''users'')")
  case (Inr us)
  with first have hit: "cache_Get e1 w ''users'' = (Inr users, w1)"
    by (auto simp add: proxyUserRepo_GetAll_def split: prod.splits sum.splits)
  then obtain b where b: "client_Get (now e1) (redis w) ''users'' = Some b"
      "json_Decode_users b = Inr users" "redis w1 = redis w"
    by (auto simp add: cache_Get_def emit_def Let_def split: if_splits option.splits sum.splits)
  with alive have "client_Get (now e2) (redis w1) ''users'' = Some b"
    by (auto simp add: client_Get_def split: option.splits if_splits)
  with b readable show ?thesis
    by (simp add: proxyUserRepo_GetAll_def cache_Get_def emit_def)
next
  case (Inl err)
  with filled have ok: "redis_set_ok e1"
      "json_Decode_users (Text (json_of_users users)) = Inr users"
    by auto
  from Inl first ok(1)
  have "redis w1 ''users'' = Some (Text (json_of_users users), now e1 + dataExpiration)"
    by (auto simp add: proxyUserRepo_GetAll_def cache_Set_def emit_def userRepo_GetAll_def
        userDb_GetAll_def Let_def split: prod.splits sum.splits if_splits)
  with alive have "client_Get (now e2) (redis w1) ''users'' = Some (Text (json_of_users users))"
    by (auto simp add: client_Get_def)
  with ok readable show ?thesis
    by (simp add: proxyUserRepo_GetAll_def cache_Get_def emit_def)
qed

theorem C3_second_list_from_cache_witness:
  "proxyUserRepo_GetAll (calm 0) with_al = (Inr (Slice [al\<lparr>Id := 1\<rparr>]), with_al_cached)
   \<and> redis_set_ok (calm 0)
   \<and> json_Decode_users (Text (json_of_users (Slice [al\<lparr>Id := 1\<rparr>]))) = Inr (Slice [al\<lparr>Id := 1\<rparr>])
   \<and> redis_get_ok (db_down 1) \<and> \<not> db_query_ok (db_down 1)
   \<and> redis with_al_cached ''users'' =
        Some (Text (json_of_users (Slice [al\<lparr>Id := 1\<rparr>])), dataExpiration)
   \<and> now (db_down 1) < dataExpiration
   \<and> proxyUserRepo_GetAll (db_down 1) with_al_cached =
        (Inr (Slice [al\<lparr>Id := 1\<rparr>]),
         with_al_cached\<lparr>trace := trace with_al_cached
                                   @ [RedisGet ''users'', Log (LogCacheRead ''users'')]\<rparr>)"
proof -
  have first: "proxyUserRepo_GetAll (calm 0) with_al =
                 (Inr (Slice [al\<lparr>Id := 1\<rparr>]), with_al_cached)"
    by (simp add: with_al_cached_eq with_al_eq store_defs cache_defs service_defs input_defs)
  have set_ok: "redis_set_ok (calm 0)"
    by (simp add: calm_def)
  have filled: "fst (cache_Get (calm 0) with_al ''users'') = Inr (Slice [al\<lparr>Id := 1\<rparr>])
      \<or> redis_set_ok (calm 0)
        \<and> json_Decode_users (Text (json_of_users (Slice [al\<lparr>Id := 1\<rparr>])))
            = Inr (Slice [al\<lparr>Id := 1\<rparr>])"
    using set_ok al_round_trips by blast
  have readable: "redis_get_ok (db_down 1)" and down: "\<not> db_query_ok (db_down 1)"
    by (simp_all add: db_down_def calm_def)
  have entry: "redis with_al_cached ''users'' =
                 Some (Text (json_of_users (Slice [al\<lparr>Id := 1\<rparr>])), dataExpiration)"
    by (simp add: with_al_cached_eq)
  have ttl: "now (db_down 1) < dataExpiration"
    by (simp add: db_down_def calm_def dataExpiration_def minute_def)
  have alive: "\<exists>b deadline. redis with_al_cached ''users'' = Some (b, deadline)
                 \<and> now (db_down 1) < deadline"
    using entry ttl by blast
  show ?thesis
    using first set_ok al_round_trips readable down entry ttl
      C3_second_list_from_cache [OF first filled readable alive]
    by blast
qed

text \<open>
  The claim as it was stated fails where Redis cannot be used, which
  \<^verbatim>\<open>proxyUserRepo.GetAll\<close> treats as a miss and \<^verbatim>\<open>cache.Set\<close> logs and swallows; in both
  runs the entry for \<^verbatim>\<open>users\<close> is in the cache and has not expired, and no \<^verbatim>\<open>Create\<close>
  comes between the two calls. In the first run the first \<^verbatim>\<open>GetAll\<close> fills the cache, but
  the second call can read neither Redis nor the database, and fails. In the second run the
  cache holds an older list, Al alone, beside a table with Al and Cy. Redis refuses the
  \<^verbatim>\<open>GET\<close> and the \<^verbatim>\<open>SET\<close> of the first call, which reads the store and returns both users,
  leaving the entry as it was; the second call, with Redis back, is served from the cache
  and returns Al alone: the two lists differ.
\<close>

theorem C3_cache_unusable_counterexample:
  "proxyUserRepo_GetAll (calm 0) with_al = (Inr (Slice [al\<lparr>Id := 1\<rparr>]), with_al_cached)
   \<and> redis with_al_cached ''users'' =
        Some (Text (json_of_users (Slice [al\<lparr>Id := 1\<rparr>])), dataExpiration)
   \<and> now (outage 1) < dataExpiration
   \<and> fst (proxyUserRepo_GetAll (outage 1) with_al_cached) = Inl (FailedToGetAllUsers IOFailure)
   \<and> redis with_stale_cache ''users'' =
        Some (Text (json_of_users (Slice [al\<lparr>Id := 1\<rparr>])), dataExpiration)
   \<and> now (calm 3) < dataExpiration
   \<and> fst (proxyUserRepo_GetAll (redis_down 2) with_stale_cache)
        = Inr (Slice [al\<lparr>Id := 1\<rparr>, cy\<lparr>Id := 2\<rparr>])
   \<and> redis (snd (proxyUserRepo_GetAll (redis_down 2) with_stale_cache)) = redis with_stale_cache
   \<and> fst (proxyUserRepo_GetAll (calm 3) (snd (proxyUserRepo_GetAll (redis_down 2) with_stale_cache)))
        = Inr (Slice [al\<lparr>Id := 1\<rparr>])
   \<and> Slice [al\<lparr>Id := 1\<rparr>] \<noteq> Slice [al\<lparr>Id := 1\<rparr>, cy\<lparr>Id := 2\<rparr>]"
  by (simp add: with_stale_cache_def with_al_cached_def with_al_eq service_defs store_defs
      cache_defs json_defs input_defs)

section \<open>The cache\<close>

text \<open>
  Claim C7, as amended. \<^verbatim>\<open>cache.Set\<close> returns no error for every value it can turn into
  bytes, also when the Redis client fails: then it logs the failure, and the entries of
  the cache are as before. A value the encoder refuses is different: \<^verbatim>\<open>cache.Set\<close> returns
  the error \<^verbatim>\<open>failed to encode value\<close> to its caller, without a call to Redis and without a
  log line.
\<close>

theorem C7_set_returns_only_encoding_errors:
  "(encodable val \<longrightarrow> fst (cache_Set e w key val) = None)
   \<and> (encodable val \<and> \<not> redis_set_ok e \<longrightarrow>
        redis (snd (cache_Set e w key val)) = redis w
        \<and> trace (snd (cache_Set e w key val)) = trace w @ [RedisSet key, Log LogCacheWriteError])
   \<and> (\<not> encodable val \<longrightarrow> (\<exists>c. cache_Set e w key val = (Some (FailedToEncodeValue c), w)))"
  by (auto simp add: cache_Set_def encodable_def emit_def Let_def split: any.splits sum.splits)

theorem C7_set_returns_only_encoding_errors_witness:
  "encodable (Other (VUsers (Slice [al]))) \<and> \<not> redis_set_ok (set_fails 0)
   \<and> fst (cache_Set (set_fails 0) with_al ''users'' (Other (VUsers (Slice [al])))) = None
   \<and> redis (snd (cache_Set (set_fails 0) with_al ''users'' (Other (VUsers (Slice [al])))))
        = redis with_al
   \<and> trace (snd (cache_Set (set_fails 0) with_al ''users'' (Other (VUsers (Slice [al])))))
        = trace with_al @ [RedisSet ''users'', Log LogCacheWriteError]"
proof -
  have a: "encodable (Other (VUsers (Slice [al])))"
    by (simp add: encodable_def)
  have b: "\<not> redis_set_ok (set_fails 0)"
    by (simp add: set_fails_def calm_def)
  show ?thesis
    using a b C7_set_returns_only_encoding_errors
      [of "Other (VUsers (Slice [al]))" "set_fails 0" with_al "''users''"]
    by blast
qed

text \<open>
  The claim as it was stated, that a failure of the serialization too is logged and not
  returned, fails for a channel, a value the encoder refuses: \<^verbatim>\<open>cache.Set\<close> returns the
  error, and the world, its trace included, is as before.
\<close>

theorem C7_encoding_error_counterexample:
  "cache_Set (calm 0) with_al ''users'' (Other VChan)
     = (Some (FailedToEncodeValue UnsupportedType), with_al)
   \<and> fst (cache_Set (calm 0) with_al ''users'' (Other VChan)) \<noteq> None"
  by (simp add: cache_Set_def)

section \<open>The response of \<^verbatim>\<open>GET /users\<close>\<close>

text \<open>
  When the service returns a list, the handler answers 200 with the content type
  \<^verbatim>\<open>application/json\<close> and the encoding of the list as body: an array of user objects for
  a slice that is not nil, and \<^verbatim>\<open>null\<close> for the nil slice.
\<close>

lemma GetAll_response:
  "fst (userService_GetAll e w) = Inr s \<Longrightarrow>
   fst (userController_GetAll e w new_ResponseWriter) =
     \<lparr>header = [''Content-Type'' \<mapsto> ''application/json''], status = Some StatusOK,
       sent_header = [''Content-Type'' \<mapsto> ''application/json''],
       body = [Data (Text (json_of_users s))]\<rparr>"
  by (auto simp add: handler_defs split: prod.splits)

lemma GetAll_rows_from_store:
  "redis w ''users'' = None \<Longrightarrow> db_query_ok e \<Longrightarrow>
   fst (userService_GetAll e w) = Inr (if rows (db w) = [] then SNil else Slice (rows (db w)))"
  by (simp add: service_defs store_defs cache_defs scan_rows_eq Let_def)

text \<open>
  Claim C8, at the input where the program departs from it. The table has no row and the
  cache is empty; every call goes through. \<^verbatim>\<open>userDb.GetAll\<close> returns the nil slice it
  declared, and the handler answers 200 with the content type \<^verbatim>\<open>application/json\<close> and
  the body \<^verbatim>\<open>null\<close>, not the empty array.
\<close>

theorem C8_empty_store_body_is_null:
  "userController_GetAll (calm 0) init_world new_ResponseWriter =
     (\<lparr>header = [''Content-Type'' \<mapsto> ''application/json''], status = Some StatusOK,
       sent_header = [''Content-Type'' \<mapsto> ''application/json''], body = [Data (Text JNull)]\<rparr>,
      init_world\<lparr>redis := [''users'' \<mapsto> (Text JNull, dataExpiration)],
                 trace := [RedisGet ''users'', DbQuery, RedisSet ''users'', Log LogAllUsersFetched]\<rparr>)
   \<and> Text JNull \<noteq> Text (JArr [])"
  by (simp add: handler_defs service_defs store_defs cache_defs input_defs)

end
